theory Spec2Isabelle
  imports Main "HOL-Library.Sublist"
begin

section \<open>Python text primitives used by the hook commands\<close>

text \<open>
  The commands of \<^verbatim>\<open>github.py\<close> work on chat text. Text is modelled as \<^typ>\<open>string\<close>
  over the ASCII range: \<^verbatim>\<open>str.lower\<close> maps \<^verbatim>\<open>A-Z\<close> to \<^verbatim>\<open>a-z\<close>, \<^verbatim>\<open>str.split()\<close> cuts at
  the ASCII whitespace characters, and \<^verbatim>\<open>int\<close> reads a decimal literal of Python 3
  (an optional sign, digits, single underscores between digits).
\<close>

definition lower_char :: "char \<Rightarrow> char" where
  "lower_char c =
     (let n = (of_char c :: nat) in if 65 \<le> n \<and> n \<le> 90 then char_of (n + 32) else c)"

definition lower :: "string \<Rightarrow> string" where
  "lower s = map lower_char s"

definition isspace :: "char \<Rightarrow> bool" where
  "isspace c = (let n = (of_char c :: nat) in (9 \<le> n \<and> n \<le> 13) \<or> (28 \<le> n \<and> n \<le> 32))"

text \<open>\<^verbatim>\<open>s.split()\<close>: the maximal runs of characters that are not whitespace.\<close>

fun split_acc :: "string \<Rightarrow> string \<Rightarrow> string list" where
  "split_acc cur [] = (if cur = [] then [] else [cur])"
| "split_acc cur (c # cs) =
     (if isspace c then (if cur = [] then split_acc [] cs else cur # split_acc [] cs)
      else split_acc (cur @ [c]) cs)"

definition str_split :: "string \<Rightarrow> string list" where
  "str_split s = split_acc [] s"

text \<open>\<^verbatim>\<open>s.replace(old, new, 1)\<close>: the first occurrence of \<open>old\<close> only.\<close>

fun replace1 :: "string \<Rightarrow> string \<Rightarrow> string \<Rightarrow> string" where
  "replace1 old new [] = (if old = [] then new else [])"
| "replace1 old new (c # cs) =
     (if prefix old (c # cs) then new @ drop (length old) (c # cs)
      else c # replace1 old new cs)"

text \<open>\<^verbatim>\<open>sub in s\<close> on strings: \<open>sub\<close> occurs in \<open>s\<close> as a contiguous piece.\<close>

fun contains :: "string \<Rightarrow> string \<Rightarrow> bool" where
  "contains sub [] = (sub = [])"
| "contains sub (c # cs) = (prefix sub (c # cs) \<or> contains sub cs)"

text \<open>
  \<^verbatim>\<open>int(tok)\<close> on a token without whitespace; \<open>None\<close> stands for \<^verbatim>\<open>ValueError\<close>.
  The flag of \<open>digits_acc\<close> says that the previous character was a digit, which is
  where an underscore or the end of the literal may come.
\<close>

definition digit_val :: "char \<Rightarrow> int option" where
  "digit_val c =
     (let n = (of_char c :: nat) in if 48 \<le> n \<and> n \<le> 57 then Some (int n - 48) else None)"

fun digits_acc :: "int \<Rightarrow> bool \<Rightarrow> string \<Rightarrow> int option" where
  "digits_acc acc after_digit [] = (if after_digit then Some acc else None)"
| "digits_acc acc after_digit (c # cs) =
     (if c = CHR ''_'' then (if after_digit then digits_acc acc False cs else None)
      else (case digit_val c of
              None \<Rightarrow> None
            | Some d \<Rightarrow> digits_acc (10 * acc + d) True cs))"

definition py_int :: "string \<Rightarrow> int option" where
  "py_int tok =
     (case tok of
        [] \<Rightarrow> None
      | c # cs \<Rightarrow>
          if c = CHR ''-'' then map_option uminus (digits_acc 0 False cs)
          else if c = CHR ''+'' then digits_acc 0 False cs
          else digits_acc 0 False tok)"

text \<open>Truthiness of an optional string: \<^verbatim>\<open>None\<close> and \<^verbatim>\<open>''\<close> are false.\<close>

definition truthy :: "string option \<Rightarrow> bool" where
  "truthy g = (case g of None \<Rightarrow> False | Some s \<Rightarrow> s \<noteq> [])"

text \<open>\<^verbatim>\<open>str(v)\<close> of a setting that may be \<^verbatim>\<open>None\<close>.\<close>

definition py_str :: "string option \<Rightarrow> string" where
  "py_str v = (case v of None \<Rightarrow> ''None'' | Some s \<Rightarrow> s)"

section \<open>The subscription table \<^verbatim>\<open>gh_hooks\<close>\<close>

text \<open>
  One row of \<^verbatim>\<open>gh_hooks\<close>, with the columns that \<^verbatim>\<open>github.py\<close> reads and writes. The
  table is a list of rows in insertion order; it is assumed to exist (it is created when
  the webhook listener is set up, outside \<^verbatim>\<open>github.py\<close>).
\<close>

record gh_row =
  channel :: string
  repo_name :: string
  enabled :: bool
  repo_color :: int
  name_color :: int
  branch_color :: int
  tag_color :: int
  hash_color :: int
  url_color :: int

type_synonym gh_hooks = "gh_row list"

text \<open>\<^verbatim>\<open>WHERE channel = ? AND repo_name = ?\<close>\<close>

definition matches :: "string \<Rightarrow> string \<Rightarrow> gh_row \<Rightarrow> bool" where
  "matches ch rp r = (channel r = ch \<and> repo_name r = rp)"

text \<open>\<^verbatim>\<open>SELECT * FROM gh_hooks WHERE channel = ? AND repo_name = ?\<close> and \<^verbatim>\<open>fetchone()\<close>\<close>

definition select_hook :: "gh_hooks \<Rightarrow> string \<Rightarrow> string \<Rightarrow> gh_row option" where
  "select_hook db ch rp = find (matches ch rp) db"

text \<open>
  \<^verbatim>\<open>INSERT INTO gh_hooks (channel, repo_name, enabled) VALUES (?, ?, ?)\<close>. The six colour
  columns take the defaults of the table declaration, which \<^verbatim>\<open>github.py\<close> does not
  contain: they are the parameter \<open>dflt\<close>, a row whose colour fields are used.
\<close>

definition insert_hook :: "gh_row \<Rightarrow> gh_hooks \<Rightarrow> string \<Rightarrow> string \<Rightarrow> bool \<Rightarrow> gh_hooks" where
  "insert_hook dflt db ch rp en = db @ [dflt\<lparr>channel := ch, repo_name := rp, enabled := en\<rparr>]"

text \<open>\<^verbatim>\<open>UPDATE gh_hooks SET enabled = ? WHERE channel = ? AND repo_name = ?\<close>\<close>

definition update_enabled :: "gh_hooks \<Rightarrow> bool \<Rightarrow> string \<Rightarrow> string \<Rightarrow> gh_hooks" where
  "update_enabled db en ch rp = map (\<lambda>r. if matches ch rp r then r\<lparr>enabled := en\<rparr> else r) db"

text \<open>
  \<^verbatim>\<open>UPDATE gh_hooks SET repo_color = ?, name_color = ?, branch_color = ?, tag_color = ?,
  hash_color = ?, url_color = ? WHERE channel = ? AND repo_name = ?\<close>, the parameters bound
  by position from the list \<open>cs\<close>, whose length the caller has checked to be six.
\<close>

definition set_row_colors :: "int list \<Rightarrow> gh_row \<Rightarrow> gh_row" where
  "set_row_colors cs r =
     r\<lparr>repo_color := cs ! 0, name_color := cs ! 1, branch_color := cs ! 2,
       tag_color := cs ! 3, hash_color := cs ! 4, url_color := cs ! 5\<rparr>"

definition update_colors :: "gh_hooks \<Rightarrow> int list \<Rightarrow> string \<Rightarrow> string \<Rightarrow> gh_hooks" where
  "update_colors db cs ch rp = map (\<lambda>r. if matches ch rp r then set_row_colors cs r else r) db"

section \<open>The bot, the trigger and the collaborators\<close>

text \<open>
  \<open>channels\<close> is \<^verbatim>\<open>bot.channels[...].privileges\<close>: per channel, the privilege level of each
  nick. \<open>client_id\<close> is \<^verbatim>\<open>bot.config.github.client_id\<close> and \<open>help_prefix\<close> is
  \<^verbatim>\<open>bot.config.core.help_prefix\<close>.
\<close>

record bot =
  channels :: "string \<rightharpoonup> (string \<rightharpoonup> nat)"
  client_id :: "string option"
  help_prefix :: string

text \<open>
  The trigger of a command: the channel it was sent in, the nick of the sender, whether
  the sender is a bot admin, and the groups of the command line as the chat framework
  matched them (group 2 the whole argument text, groups 3 and 4 its first two words).
\<close>

record trigger =
  sender :: string
  nick :: string
  admin :: bool
  group2 :: "string option"
  group3 :: "string option"
  group4 :: "string option"

text \<open>
  Functions that \<^verbatim>\<open>github.py\<close> imports: \<^verbatim>\<open>shorten_url\<close> and the \<^verbatim>\<open>fmt_*\<close> helpers of the
  formatting module, \<^verbatim>\<open>urlencode\<close> of the standard library, and the column defaults of
  the table. They are parameters of the model.
\<close>

record ext =
  shorten_url :: "string \<Rightarrow> string"
  urlencode :: "(string \<times> string) list \<Rightarrow> string"
  defaults :: gh_row
  fmt_repo :: "string \<Rightarrow> gh_row option \<Rightarrow> string"
  fmt_name :: "string \<Rightarrow> gh_row option \<Rightarrow> string"
  fmt_tag :: "string \<Rightarrow> gh_row option \<Rightarrow> string"
  fmt_hash :: "string \<Rightarrow> gh_row option \<Rightarrow> string"
  fmt_branch :: "string \<Rightarrow> gh_row option \<Rightarrow> string"
  fmt_url :: "string \<Rightarrow> gh_row option \<Rightarrow> string"

text \<open>\<^verbatim>\<open>sopel.module.OP\<close>, the privilege level of a channel operator.\<close>

definition OP :: nat where
  "OP = 4"

datatype py_error = KeyError | AttributeError

text \<open>
  What a command did: it raised, or it returned after saying the given lines with
  \<^verbatim>\<open>bot.say\<close>. Every command returns the outcome together with the table as committed.
\<close>

datatype outcome = Raised py_error | Said "string list"

section \<open>The replies\<close>

definition operator_msg :: string where
  "operator_msg = ''You must be a channel operator to use this command!''"

text \<open>The docstrings, stripped, as \<^verbatim>\<open>__doc__.strip()\<close> gives them.\<close>

definition messages_doc :: string where
  "messages_doc =
     ''.gh-hook <repo> [enable|disable] - Enable/disable displaying webhooks from repo in current channel (You must be a channel OP)''
     @ [CHR 0x0A]
     @ ''    Repo notation is just <user/org>/<repo>, not the whole URL.''"

definition colors_doc :: string where
  "colors_doc =
     ''.gh-hook-color <repo> <repo color> <name color> <branch color> <tag color> <hash color> <url color> - Set custom colors for the webhook messages (Uses mIRC color indicies)''"

definition invalid_repo_msg :: "string \<Rightarrow> string" where
  \<open>invalid_repo_msg hp = ''Invalid repo formatting, see "'' @ hp @ ''help gh-hook" for an example''\<close>

definition listening_msg :: "string \<Rightarrow> string \<Rightarrow> string" where
  "listening_msg rp ch =
     ''Successfully enabled listening for '' @ rp @ '''s events in '' @ ch @ ''.''"

definition authorize_msg :: "string \<Rightarrow> string" where
  "authorize_msg link =
     ''Great! Please allow me to create my webhook by authorizing via this link: '' @ link"

definition created_msg :: "string \<Rightarrow> string" where
  "created_msg hp =
     ''Once that webhook is successfully created, I'll post a message in here. Give me about a minute or so to set it up after you authorize. You can configure the colors that I use to display webhooks with ''
     @ hp @ ''gh-hook-color''"

definition state_msg :: "bool \<Rightarrow> string \<Rightarrow> string" where
  "state_msg en rp =
     ''Successfully '' @ (if en then ''enabled'' else ''disabled'')
     @ '' the subscription to '' @ rp @ '''s events''"

definition six_integers_msg :: "string \<Rightarrow> string" where
  \<open>six_integers_msg hp =
     ''You must provide exactly 6 colors that are integers and are space separated. See "''
     @ hp @ ''help gh-hook-color" for more information.''\<close>

definition six_colors_msg :: "string \<Rightarrow> string" where
  \<open>six_colors_msg hp =
     ''You must provide exactly 6 colors! See "'' @ hp
     @ ''help gh-hook-color" for more information.''\<close>

definition not_subscribed_msg :: "string \<Rightarrow> string \<Rightarrow> string" where
  \<open>not_subscribed_msg hp rp =
     ''Please use "'' @ hp @ ''gh-hook '' @ rp
     @ '' enable" before attempting to configure colors!''\<close>

definition example_msg :: "ext \<Rightarrow> string \<Rightarrow> string \<Rightarrow> gh_row option \<Rightarrow> string" where
  "example_msg x rp nk row =
     ''['' @ fmt_repo x rp row @ ''] Example name: '' @ fmt_name x nk row
     @ '' tag: '' @ fmt_tag x ''tag'' row
     @ '' commit: '' @ fmt_hash x ''c0mm17'' row
     @ '' branch: '' @ fmt_branch x ''master'' row
     @ '' url: '' @ fmt_url x ''http://git.io/'' row"

definition auth_url :: "ext \<Rightarrow> bot \<Rightarrow> string \<Rightarrow> string \<Rightarrow> string" where
  "auth_url x b rp ch =
     ''https://github.com/login/oauth/authorize?''
     @ urlencode x [(''client_id'', py_str (client_id b)),
                    (''scope'', ''write:repo_hook''),
                    (''state'', rp @ '':'' @ ch)]"

section \<open>The commands\<close>

text \<open>
  \<^verbatim>\<open>allowed = bot.channels[trigger.sender].privileges.get(trigger.nick, 0) >= OP\<close>;
  \<open>None\<close> is the \<^verbatim>\<open>KeyError\<close> of a channel the bot does not know.
\<close>

definition allowed :: "bot \<Rightarrow> trigger \<Rightarrow> bool option" where
  "allowed b t =
     (case channels b (sender t) of
        None \<Rightarrow> None
      | Some privileges \<Rightarrow>
          Some ((case privileges (nick t) of None \<Rightarrow> 0 | Some p \<Rightarrow> p) \<ge> OP))"

text \<open>\<^verbatim>\<open>enabled = True if not trigger.group(4) or trigger.group(4).lower() == 'enable' else False\<close>\<close>

definition enabled_arg :: "string option \<Rightarrow> bool" where
  "enabled_arg g4 = (\<not> truthy g4 \<or> map_option lower g4 = Some ''enable'')"

text \<open>
  \<^verbatim>\<open>not '/' in repo_name or 'http://' in repo_name or 'https://' in repo_name\<close>
\<close>

definition bad_repo :: "string \<Rightarrow> bool" where
  "bad_repo rp = (\<not> contains ''/'' rp \<or> contains ''http://'' rp \<or> contains ''https://'' rp)"

text \<open>The command \<^verbatim>\<open>.gh-hook\<close>.\<close>

definition configure_repo_messages ::
  "ext \<Rightarrow> bot \<Rightarrow> trigger \<Rightarrow> gh_hooks \<Rightarrow> outcome \<times> gh_hooks" where
  "configure_repo_messages x b t db =
     (case allowed b t of
        None \<Rightarrow> (Raised KeyError, db)
      | Some ok \<Rightarrow>
          if \<not> ok \<and> \<not> admin t then (Said [operator_msg], db)
          else if \<not> truthy (group2 t) then (Said [messages_doc], db)
          else (case group3 t of
                  None \<Rightarrow> (Raised AttributeError, db)
                | Some g3 \<Rightarrow>
                    let ch = lower (sender t); rp = lower g3 in
                    if bad_repo rp then (Said [invalid_repo_msg (help_prefix b)], db)
                    else
                      let en = enabled_arg (group4 t);
                          link = shorten_url x (auth_url x b rp ch)
                      in (case select_hook db ch rp of
                            None \<Rightarrow>
                              (Said [listening_msg rp ch, authorize_msg link,
                                     created_msg (help_prefix b)],
                               insert_hook (defaults x) db ch rp en)
                          | Some result \<Rightarrow>
                              (Said (state_msg en rp #
                                     (if en then [authorize_msg link, created_msg (help_prefix b)]
                                      else [])),
                               update_enabled db en ch rp))))"

text \<open>
  \<^verbatim>\<open>[int(c) % 16 for c in ...]\<close> inside \<^verbatim>\<open>try\<close>: \<open>None\<close> when some token is not an
  integer. Python's \<^verbatim>\<open>%\<close> with a positive modulus is \<open>mod\<close> on \<^typ>\<open>int\<close>.
\<close>

fun parse_colors :: "string list \<Rightarrow> int list option" where
  "parse_colors [] = Some []"
| "parse_colors (tok # toks) =
     (case py_int tok of
        None \<Rightarrow> None
      | Some n \<Rightarrow>
          (case parse_colors toks of
             None \<Rightarrow> None
           | Some ns \<Rightarrow> Some (n mod 16 # ns)))"

text \<open>
  The colour arguments of \<^verbatim>\<open>.gh-hook-color\<close>:
  \<^verbatim>\<open>[int(c) % 16 for c in trigger.group(2).replace(trigger.group(3), '', 1).split()]\<close>
\<close>

definition color_args :: "string \<Rightarrow> string \<Rightarrow> int list option" where
  "color_args g2 g3 = parse_colors (str_split (replace1 g3 [] g2))"

text \<open>The command \<^verbatim>\<open>.gh-hook-color\<close>.\<close>

definition configure_repo_colors ::
  "ext \<Rightarrow> bot \<Rightarrow> trigger \<Rightarrow> gh_hooks \<Rightarrow> outcome \<times> gh_hooks" where
  "configure_repo_colors x b t db =
     (case allowed b t of
        None \<Rightarrow> (Raised KeyError, db)
      | Some ok \<Rightarrow>
          if \<not> ok \<and> \<not> admin t then (Said [operator_msg], db)
          else (case group2 t of
                  None \<Rightarrow> (Said [colors_doc], db)
                | Some g2 \<Rightarrow>
                    if g2 = [] then (Said [colors_doc], db)
                    else (case group3 t of
                      None \<Rightarrow> (Raised AttributeError, db)
                    | Some g3 \<Rightarrow>
                        let ch = lower (sender t); rp = lower g3 in
                        (case color_args g2 g3 of
                           None \<Rightarrow> (Said [six_integers_msg (help_prefix b)], db)
                         | Some colors \<Rightarrow>
                             if length colors \<noteq> 6
                             then (Said [six_colors_msg (help_prefix b)], db)
                             else (case select_hook db ch rp of
                                     None \<Rightarrow> (Said [not_subscribed_msg (help_prefix b) rp], db)
                                   | Some result \<Rightarrow>
                                       let db' = update_colors db colors ch rp;
                                           row = select_hook db' ch rp
                                       in (Said [example_msg x rp (nick t) row], db'))))))"


section \<open>Store states that the commands can produce\<close>




section \<open>The webhook listener\<close>

text \<open>
  Modelled from the spec: the webhook module (\<^verbatim>\<open>webhook.py\<close>, of which \<^verbatim>\<open>github.py\<close> only
  imports \<^verbatim>\<open>setup_webhook\<close> and \<^verbatim>\<open>shutdown_webhook\<close>) is missing. The rejection reasons of
  the validator and the status each one is answered with (401 for a signature failure,
  400 for malformed JSON or a missing repository identity).
\<close>

datatype rejection = InvalidSignature | MalformedPayload | MissingRepository

definition status_of :: "rejection \<Rightarrow> nat" where
  "status_of rej = (case rej of InvalidSignature \<Rightarrow> 401 | MalformedPayload \<Rightarrow> 400 | MissingRepository \<Rightarrow> 400)"

text \<open>
  Modelled from the spec: an inbound request (event-type header, signature header, raw
  body), the validated event, and the listener's configuration and collaborators: the
  shared secret if one is configured, the HMAC of a body under a secret, the JSON parser,
  the field holding the repository full name, and the registry of renderers by event type.
\<close>

record request =
  event_type_header :: string
  signature_header :: string
  raw_body :: string

record 'p webhook_event =
  event_type :: string
  payload :: 'p
  repository :: string

record 'p listener =
  secret :: "string option"
  hmac :: "string \<Rightarrow> string \<Rightarrow> string"
  parse_json :: "string \<Rightarrow> 'p option"
  repository_full_name :: "'p \<Rightarrow> string option"
  renderers :: "string \<rightharpoonup> ('p \<Rightarrow> gh_row \<Rightarrow> string option)"

text \<open>
  Modelled from the spec: the validator of the missing webhook module. (a) With a secret
  configured, the signature must equal the HMAC of the raw body under the secret, else
  \<open>InvalidSignature\<close>; (b) the body must parse as JSON, else \<open>MalformedPayload\<close>; (c) the
  event type is taken from the header; (d) the repository full name is taken from the
  payload, else \<open>MissingRepository\<close>.
\<close>

definition validate :: "'p listener \<Rightarrow> request \<Rightarrow> rejection + 'p webhook_event" where
  "validate l req =
     (if (case secret l of
            None \<Rightarrow> False
          | Some k \<Rightarrow> signature_header req \<noteq> hmac l k (raw_body req))
      then Inl InvalidSignature
      else (case parse_json l (raw_body req) of
              None \<Rightarrow> Inl MalformedPayload
            | Some p \<Rightarrow>
                (case repository_full_name l p of
                   None \<Rightarrow> Inl MissingRepository
                 | Some full_name \<Rightarrow>
                     Inr \<lparr>event_type = event_type_header req, payload = p,
                          repository = full_name\<rparr>)))"

text \<open>
  Modelled from the spec: \<^verbatim>\<open>list_enabled_for_repo\<close> of the store and the router of the
  missing webhook module. The enabled rows of the repository (compared without letter
  case) are rendered by the renderer of the event type, each with its own row of colours;
  an unknown event type and a renderer without output deliver nothing.
\<close>

definition list_enabled_for_repo :: "gh_hooks \<Rightarrow> string \<Rightarrow> gh_row list" where
  "list_enabled_for_repo db full_name =
     filter (\<lambda>r. enabled r \<and> repo_name r = lower full_name) db"

definition route :: "'p listener \<Rightarrow> gh_hooks \<Rightarrow> 'p webhook_event \<Rightarrow> (string \<times> string) list" where
  "route l db ev =
     (case renderers l (event_type ev) of
        None \<Rightarrow> []
      | Some render \<Rightarrow>
          List.map_filter (\<lambda>r. map_option (Pair (channel r)) (render (payload ev) r))
            (list_enabled_for_repo db (repository ev)))"

text \<open>
  Modelled from the spec: the request handler of the missing webhook module. It returns
  the HTTP status and the deliveries \<open>(channel, text)\<close> handed to the chat transport: a
  rejected request is answered with the status of its rejection and delivers nothing, a
  validated one is answered 200 and routed.
\<close>

definition handle_request ::
  "'p listener \<Rightarrow> gh_hooks \<Rightarrow> request \<Rightarrow> nat \<times> (string \<times> string) list" where
  "handle_request l db req =
     (case validate l req of
        Inl rej \<Rightarrow> (status_of rej, [])
      | Inr ev \<Rightarrow> (200, route l db ev))"

section \<open>Concrete inputs\<close>

text \<open>
  A bot in the channel \<^verbatim>\<open>#Chan\<close> with an operator and a voiced user, collaborators that
  leave their text as it is, the default colours 13 15 6 6 14 2, and triggers sent in
  \<^verbatim>\<open>#Chan\<close> by a given nick.
\<close>

definition demo_ext :: ext where
  "demo_ext =
     \<lparr>shorten_url = (\<lambda>u. u),
      urlencode = (\<lambda>kvs. concat (map (\<lambda>kv. fst kv @ ''='' @ snd kv @ ''&'') kvs)),
      defaults = \<lparr>channel = [], repo_name = [], enabled = True, repo_color = 13,
                  name_color = 15, branch_color = 6, tag_color = 6, hash_color = 14,
                  url_color = 2\<rparr>,
      fmt_repo = (\<lambda>s row. s), fmt_name = (\<lambda>s row. s), fmt_tag = (\<lambda>s row. s),
      fmt_hash = (\<lambda>s row. s), fmt_branch = (\<lambda>s row. s), fmt_url = (\<lambda>s row. s)\<rparr>"

definition demo_privileges :: "string \<rightharpoonup> nat" where
  "demo_privileges = [''op'' \<mapsto> 4, ''voice'' \<mapsto> 1]"

definition demo_bot :: bot where
  "demo_bot = \<lparr>channels = [''#Chan'' \<mapsto> demo_privileges], client_id = None, help_prefix = ''.''\<rparr>"

definition demo_trigger :: "string \<Rightarrow> string option \<Rightarrow> string option \<Rightarrow> string option \<Rightarrow> trigger" where
  "demo_trigger nk g2 g3 g4 =
     \<lparr>sender = ''#Chan'', nick = nk, admin = False, group2 = g2, group3 = g3, group4 = g4\<rparr>"

definition demo_row :: gh_row where
  "demo_row =
     \<lparr>channel = ''#chan'', repo_name = ''acme/widget'', enabled = True, repo_color = 13,
      name_color = 15, branch_color = 6, tag_color = 6, hash_color = 14, url_color = 2\<rparr>"

definition demo_listener :: "string listener" where
  "demo_listener =
     \<lparr>secret = Some ''s3cret'',
      hmac = (\<lambda>k body. ''sha1='' @ k @ body),
      parse_json = (\<lambda>body. if body = [] then None else Some body),
      repository_full_name = (\<lambda>p. Some ''Acme/Widget''),
      renderers = [''push'' \<mapsto> (\<lambda>p row. Some (''push to '' @ repo_name row))]\<rparr>"

definition demo_request :: "string \<Rightarrow> request" where
  "demo_request sig =
     \<lparr>event_type_header = ''push'', signature_header = sig, raw_body = ''{}''\<rparr>"

section \<open>Facts about the text primitives and the table\<close>

lemma select_hook_update_enabled:
  "select_hook (update_enabled db en ch rp) ch rp =
     map_option (\<lambda>r. r\<lparr>enabled := en\<rparr>) (select_hook db ch rp)"
  by (induction db) (auto simp: select_hook_def update_enabled_def matches_def)

lemma select_hook_update_colors:
  "select_hook (update_colors db cs ch rp) ch rp =
     map_option (set_row_colors cs) (select_hook db ch rp)"
  by (induction db) (auto simp: select_hook_def update_colors_def matches_def set_row_colors_def)

lemma select_hook_insert_hook:
  "select_hook db ch rp = None \<Longrightarrow>
   select_hook (insert_hook d db ch rp en) ch rp =
     Some (d\<lparr>channel := ch, repo_name := rp, enabled := en\<rparr>)"
  by (induction db) (auto simp: select_hook_def insert_hook_def matches_def)

lemma length_six:
  "length (cs :: int list) = 6 \<Longrightarrow> \<exists>c1 c2 c3 c4 c5 c6. cs = [c1, c2, c3, c4, c5, c6]"
  by (auto simp: length_Suc_conv eval_nat_numeral)

lemma parse_colors_map:
  "parse_colors toks = Some cs \<longleftrightarrow>
     (\<forall>tok \<in> set toks. py_int tok \<noteq> None) \<and> cs = map (\<lambda>tok. the (py_int tok) mod 16) toks"
proof (induction toks arbitrary: cs)
  case Nil
  then show ?case by auto
next
  case (Cons tok toks)
  show ?case
  proof (cases "py_int tok")
    case None
    then show ?thesis by auto
  next
    case (Some n)
    show ?thesis
    proof (cases "parse_colors toks")
      case None
      with Cons[of "map (\<lambda>tok. the (py_int tok) mod 16) toks"] Some show ?thesis by auto
    next
      case (Some ns)
      with Cons[of ns] \<open>py_int tok = Some n\<close> show ?thesis by auto
    qed
  qed
qed

lemma parse_colors_range:
  "parse_colors toks = Some cs \<Longrightarrow> c \<in> set cs \<Longrightarrow> 0 \<le> c \<and> c \<le> 15"
  by (auto simp: parse_colors_map)

lemma of_char_lower_char:
  "(of_char (lower_char c) :: nat) =
     (if 65 \<le> (of_char c :: nat) \<and> (of_char c :: nat) \<le> 90 then of_char c + 32 else of_char c)"
  by (simp add: lower_char_def Let_def)



lemma lower_char_eq_iff:
  assumes "(of_char d :: nat) = n" "(of_char D :: nat) = n - 32" "97 \<le> n" "n \<le> 122"
  shows "lower_char c = d \<longleftrightarrow> c = d \<or> c = D"
proof -
  have "lower_char c = d \<longleftrightarrow> (of_char (lower_char c) :: nat) = of_char d"
    by simp
  also have "\<dots> \<longleftrightarrow> (of_char c :: nat) = of_char d \<or> (of_char c :: nat) = of_char D"
    using assms by (auto simp: of_char_lower_char)
  also have "\<dots> \<longleftrightarrow> c = d \<or> c = D"
    by simp
  finally show ?thesis .
qed

lemma lower_char_e: "lower_char c = CHR ''e'' \<longleftrightarrow> c = CHR ''e'' \<or> c = CHR ''E''"
  by (rule lower_char_eq_iff [where n = 101]) simp_all

lemma lower_char_n: "lower_char c = CHR ''n'' \<longleftrightarrow> c = CHR ''n'' \<or> c = CHR ''N''"
  by (rule lower_char_eq_iff [where n = 110]) simp_all

lemma lower_char_a: "lower_char c = CHR ''a'' \<longleftrightarrow> c = CHR ''a'' \<or> c = CHR ''A''"
  by (rule lower_char_eq_iff [where n = 97]) simp_all

lemma lower_char_b: "lower_char c = CHR ''b'' \<longleftrightarrow> c = CHR ''b'' \<or> c = CHR ''B''"
  by (rule lower_char_eq_iff [where n = 98]) simp_all

lemma lower_char_l: "lower_char c = CHR ''l'' \<longleftrightarrow> c = CHR ''l'' \<or> c = CHR ''L''"
  by (rule lower_char_eq_iff [where n = 108]) simp_all

lemma lower_eq_Cons: "lower s = d # ds \<longleftrightarrow> (\<exists>c cs. s = c # cs \<and> lower_char c = d \<and> lower cs = ds)"
  by (cases s) (auto simp: lower_def)

lemma lower_eq_Nil: "lower s = [] \<longleftrightarrow> s = []"
  by (simp add: lower_def)

lemma lower_eq_enable:
  "lower s = ''enable'' \<longleftrightarrow>
     (\<exists>c1 c2 c3 c4 c5 c6. s = [c1, c2, c3, c4, c5, c6]
        \<and> (c1 = CHR ''e'' \<or> c1 = CHR ''E'') \<and> (c2 = CHR ''n'' \<or> c2 = CHR ''N'')
        \<and> (c3 = CHR ''a'' \<or> c3 = CHR ''A'') \<and> (c4 = CHR ''b'' \<or> c4 = CHR ''B'')
        \<and> (c5 = CHR ''l'' \<or> c5 = CHR ''L'') \<and> (c6 = CHR ''e'' \<or> c6 = CHR ''E''))"
proof
  assume "lower s = ''enable''"
  then obtain c1 s1 where 1: "s = c1 # s1" "lower_char c1 = CHR ''e''" "lower s1 = ''nable''"
    unfolding lower_eq_Cons [of s] by blast
  then obtain c2 s2 where 2: "s1 = c2 # s2" "lower_char c2 = CHR ''n''" "lower s2 = ''able''"
    unfolding lower_eq_Cons [of s1] by blast
  then obtain c3 s3 where 3: "s2 = c3 # s3" "lower_char c3 = CHR ''a''" "lower s3 = ''ble''"
    unfolding lower_eq_Cons [of s2] by blast
  then obtain c4 s4 where 4: "s3 = c4 # s4" "lower_char c4 = CHR ''b''" "lower s4 = ''le''"
    unfolding lower_eq_Cons [of s3] by blast
  then obtain c5 s5 where 5: "s4 = c5 # s5" "lower_char c5 = CHR ''l''" "lower s5 = ''e''"
    unfolding lower_eq_Cons [of s4] by blast
  then obtain c6 s6 where 6: "s5 = c6 # s6" "lower_char c6 = CHR ''e''" "lower s6 = []"
    unfolding lower_eq_Cons [of s5] by blast
  have "s = [c1, c2, c3, c4, c5, c6]"
    using 1(1) 2(1) 3(1) 4(1) 5(1) 6(1) 6(3) by (simp add: lower_eq_Nil)
  then show "\<exists>c1 c2 c3 c4 c5 c6. s = [c1, c2, c3, c4, c5, c6]
        \<and> (c1 = CHR ''e'' \<or> c1 = CHR ''E'') \<and> (c2 = CHR ''n'' \<or> c2 = CHR ''N'')
        \<and> (c3 = CHR ''a'' \<or> c3 = CHR ''A'') \<and> (c4 = CHR ''b'' \<or> c4 = CHR ''B'')
        \<and> (c5 = CHR ''l'' \<or> c5 = CHR ''L'') \<and> (c6 = CHR ''e'' \<or> c6 = CHR ''E'')"
    using 1(2) 2(2) 3(2) 4(2) 5(2) 6(2)
    unfolding lower_char_e lower_char_n lower_char_a lower_char_b lower_char_l by blast
next
  assume "\<exists>c1 c2 c3 c4 c5 c6. s = [c1, c2, c3, c4, c5, c6]
        \<and> (c1 = CHR ''e'' \<or> c1 = CHR ''E'') \<and> (c2 = CHR ''n'' \<or> c2 = CHR ''N'')
        \<and> (c3 = CHR ''a'' \<or> c3 = CHR ''A'') \<and> (c4 = CHR ''b'' \<or> c4 = CHR ''B'')
        \<and> (c5 = CHR ''l'' \<or> c5 = CHR ''L'') \<and> (c6 = CHR ''e'' \<or> c6 = CHR ''E'')"
  then obtain c1 c2 c3 c4 c5 c6 where s: "s = [c1, c2, c3, c4, c5, c6]"
    and c: "lower_char c1 = CHR ''e''" "lower_char c2 = CHR ''n''" "lower_char c3 = CHR ''a''"
      "lower_char c4 = CHR ''b''" "lower_char c5 = CHR ''l''" "lower_char c6 = CHR ''e''"
    unfolding lower_char_e lower_char_n lower_char_a lower_char_b lower_char_l by blast
  show "lower s = ''enable''"
    unfolding s lower_def using c by simp
qed


lemma lower_char_slash: "lower_char c = CHR ''/'' \<longleftrightarrow> c = CHR ''/''"
proof -
  have "lower_char c = CHR ''/'' \<longleftrightarrow> (of_char (lower_char c) :: nat) = of_char (CHR ''/'')"
    by (simp only: of_char_eq_iff)
  also have "\<dots> \<longleftrightarrow> (of_char c :: nat) = of_char (CHR ''/'')"
    by (auto simp: of_char_lower_char)
  finally show ?thesis by (simp only: of_char_eq_iff)
qed

lemma contains_iff_sublist: "contains sub s \<longleftrightarrow> sublist sub s"
  by (induction s) (auto simp: sublist_Cons_right)

lemma contains_single: "contains [c] s \<longleftrightarrow> c \<in> set s"
  by (induction s) auto

lemma contains_slash_lower: "contains ''/'' (lower s) \<longleftrightarrow> contains ''/'' s"
proof -
  have "CHR ''/'' \<in> lower_char ` set s \<longleftrightarrow> (\<exists>c \<in> set s. lower_char c = CHR ''/'')"
    unfolding image_iff by metis
  then show ?thesis
    by (simp add: contains_single lower_def lower_char_slash)
qed

lemma contains_lower: "contains sub s \<Longrightarrow> contains (lower sub) (lower s)"
proof (induction s)
  case Nil
  then show ?case by (simp add: lower_def)
next
  case (Cons c s)
  from Cons.prems have "prefix sub (c # s) \<or> contains sub s" by simp
  then show ?case
  proof
    assume "prefix sub (c # s)"
    then have "prefix (lower sub) (lower (c # s))"
      unfolding lower_def by (rule map_mono_prefix)
    then show ?thesis by (simp add: lower_def)
  next
    assume "contains sub s"
    then have "contains (lower sub) (lower s)" by (rule Cons.IH)
    then show ?thesis by (simp add: lower_def)
  qed
qed

lemma lower_http: "lower ''http://'' = ''http://''" "lower ''https://'' = ''https://''"
  by (simp_all add: lower_def lower_char_def)

lemma bad_repo_lower:
  "\<not> contains ''/'' g3 \<or> contains ''http://'' g3 \<or> contains ''https://'' g3 \<Longrightarrow> bad_repo (lower g3)"
  unfolding bad_repo_def contains_slash_lower
  using contains_lower [of "''http://''" g3] contains_lower [of "''https://''" g3]
  by (auto simp only: lower_http)

lemma truthy_Some: "truthy g \<longleftrightarrow> (\<exists>s. g = Some s \<and> s \<noteq> [])"
  by (cases g) (simp_all add: truthy_def)

lemma configure_repo_messages_store:
  assumes "allowed b t = Some ok" and "ok \<or> admin t" and "truthy (group2 t)"
    and "group3 t = Some g3" and "\<not> bad_repo (lower g3)"
  shows "snd (configure_repo_messages x b t db) =
     (case select_hook db (lower (sender t)) (lower g3) of
        None \<Rightarrow> insert_hook (defaults x) db (lower (sender t)) (lower g3) (enabled_arg (group4 t))
      | Some r \<Rightarrow> update_enabled db (enabled_arg (group4 t)) (lower (sender t)) (lower g3))"
  using assms by (auto simp: configure_repo_messages_def Let_def split: option.splits)

lemma configure_repo_messages_writes:
  "snd (configure_repo_messages x b t db) = db
   \<or> (\<exists>g3. group3 t = Some g3 \<and>
         snd (configure_repo_messages x b t db) =
           (case select_hook db (lower (sender t)) (lower g3) of
              None \<Rightarrow> insert_hook (defaults x) db (lower (sender t)) (lower g3) (enabled_arg (group4 t))
            | Some r \<Rightarrow> update_enabled db (enabled_arg (group4 t)) (lower (sender t)) (lower g3)))"
  by (auto simp: configure_repo_messages_def Let_def split: option.splits)

lemma configure_repo_colors_store:
  assumes "allowed b t = Some ok" and "ok \<or> admin t" and "group2 t = Some g2" and "g2 \<noteq> []"
    and "group3 t = Some g3" and "color_args g2 g3 = Some cs" and "length cs = 6"
  shows "configure_repo_colors x b t db =
     (case select_hook db (lower (sender t)) (lower g3) of
        None \<Rightarrow> (Said [not_subscribed_msg (help_prefix b) (lower g3)], db)
      | Some r \<Rightarrow>
          (Said [example_msg x (lower g3) (nick t)
                   (select_hook (update_colors db cs (lower (sender t)) (lower g3))
                      (lower (sender t)) (lower g3))],
           update_colors db cs (lower (sender t)) (lower g3)))"
  using assms by (auto simp: configure_repo_colors_def Let_def split: option.splits)

lemma configure_repo_colors_writes:
  "snd (configure_repo_colors x b t db) = db
   \<or> (\<exists>g2 g3 cs. group2 t = Some g2 \<and> group3 t = Some g3 \<and> color_args g2 g3 = Some cs
         \<and> length cs = 6 \<and> select_hook db (lower (sender t)) (lower g3) \<noteq> None
         \<and> snd (configure_repo_colors x b t db) = update_colors db cs (lower (sender t)) (lower g3))"
  by (auto simp: configure_repo_colors_def Let_def split: option.splits)

lemma parse_colors_Some:
  "map py_int toks = map Some ns \<Longrightarrow> parse_colors toks = Some (map (\<lambda>n. n mod 16) ns)"
  by (induction toks arbitrary: ns) auto

lemma set_row_colors_six:
  "set_row_colors [c1, c2, c3, c4, c5, c6] r =
     r\<lparr>repo_color := c1, name_color := c2, branch_color := c3, tag_color := c4,
       hash_color := c5, url_color := c6\<rparr>"
  by (simp add: set_row_colors_def)

lemma colors_of_set_row_colors:
  "length cs = 6 \<Longrightarrow>
   [repo_color (set_row_colors cs r), name_color (set_row_colors cs r),
    branch_color (set_row_colors cs r), tag_color (set_row_colors cs r),
    hash_color (set_row_colors cs r), url_color (set_row_colors cs r)] = cs"
  using length_six [of cs] by (auto simp: set_row_colors_six)

lemma demo_allowed_op:
  "allowed demo_bot (demo_trigger ''op'' g2 g3 g4) = Some True"
  by (simp add: allowed_def demo_bot_def demo_trigger_def demo_privileges_def OP_def)

lemma lower_demo_keys: "lower ''#Chan'' = ''#chan''" "lower ''Acme/Widget'' = ''acme/widget''"
  by code_simp+

lemma demo_enabled_arg:
  "enabled_arg None" "enabled_arg (Some ''EnAbLe'')" "\<not> enabled_arg (Some ''disable'')"
  "\<not> enabled_arg (Some ''enabel'')"
  by code_simp+

lemma demo_color_tokens:
  "map py_int (str_split (replace1 ''Acme/Widget'' [] ''Acme/Widget 16 17 18 19 20 21''))
     = map Some [16, 17, 18, 19, 20, 21]"
  by (simp add: str_split_def isspace_def py_int_def digit_val_def)

lemma demo_select: "select_hook [demo_row] ''#chan'' ''acme/widget'' = Some demo_row"
  by (simp add: select_hook_def matches_def demo_row_def)

lemma not_bad_repo_demo: "\<not> bad_repo ''acme/widget''"
  by (simp add: bad_repo_def)

lemma demo_six_args:
  "color_args ''acme/widget 1 2 3 4 5 6'' ''acme/widget'' = Some [1, 2, 3, 4, 5, 6]"
  by (simp add: color_args_def str_split_def isspace_def py_int_def digit_val_def)

lemma color_args_tokens:
  "color_args g2 g3 = Some cs \<Longrightarrow>
     length cs = length (str_split (replace1 g3 [] g2))
     \<and> (\<forall>tok \<in> set (str_split (replace1 g3 [] g2)). py_int tok \<noteq> None)"
  by (simp add: color_args_def parse_colors_map)

lemma demo_five_tokens:
  "str_split (replace1 ''acme/widget'' [] ''acme/widget 1 2 3 4 x'')
     = [''1'', ''2'', ''3'', ''4'', ''x'']"
  by (simp add: str_split_def isspace_def)















section \<open>The claims\<close>

text \<open>
  C1 (as amended). Take an invocation by an authorised caller that names a repository.
  After \<^verbatim>\<open>.gh-hook\<close> on a well-formed repository name, the row read under the lowercased
  channel and repository has the enabled flag computed from this call. After
  \<^verbatim>\<open>.gh-hook-color\<close> with six integers on a subscribed pair, the row read has, in the order
  \<open>repo_color\<close>, \<open>name_color\<close>, \<open>branch_color\<close>, \<open>tag_color\<close>, \<open>hash_color\<close>, \<open>url_color\<close>,
  the six integers reduced modulo 16, which are the six integers themselves when each is
  between 0 and 15.
\<close>

theorem upsert_and_set_colors_then_get:
  assumes "allowed b t = Some ok" and "ok \<or> admin t"
    and "group2 t = Some g2" and "g2 \<noteq> []" and "group3 t = Some g3"
  shows "(\<not> bad_repo (lower g3) \<longrightarrow>
            map_option enabled
              (select_hook (snd (configure_repo_messages x b t db)) (lower (sender t)) (lower g3))
            = Some (enabled_arg (group4 t)))
       \<and> (select_hook db (lower (sender t)) (lower g3) \<noteq> None
            \<and> map py_int (str_split (replace1 g3 [] g2)) = map Some ns \<and> length ns = 6 \<longrightarrow>
            map_option (\<lambda>r. [repo_color r, name_color r, branch_color r, tag_color r,
                              hash_color r, url_color r])
              (select_hook (snd (configure_repo_colors x b t db)) (lower (sender t)) (lower g3))
            = Some (map (\<lambda>n. n mod 16) ns)
            \<and> ((\<forall>n \<in> set ns. 0 \<le> n \<and> n < 16) \<longrightarrow>
                 map_option (\<lambda>r. [repo_color r, name_color r, branch_color r, tag_color r,
                                   hash_color r, url_color r])
                   (select_hook (snd (configure_repo_colors x b t db)) (lower (sender t))
                      (lower g3))
                 = Some ns))"
proof (intro conjI impI)
  assume "\<not> bad_repo (lower g3)"
  with assms have "snd (configure_repo_messages x b t db) =
     (case select_hook db (lower (sender t)) (lower g3) of
        None \<Rightarrow> insert_hook (defaults x) db (lower (sender t)) (lower g3) (enabled_arg (group4 t))
      | Some r \<Rightarrow> update_enabled db (enabled_arg (group4 t)) (lower (sender t)) (lower g3))"
    by (intro configure_repo_messages_store) (simp_all add: truthy_def)
  then show "map_option enabled
      (select_hook (snd (configure_repo_messages x b t db)) (lower (sender t)) (lower g3))
      = Some (enabled_arg (group4 t))"
    by (cases "select_hook db (lower (sender t)) (lower g3)")
      (simp_all add: select_hook_insert_hook select_hook_update_enabled)
next
  assume a: "select_hook db (lower (sender t)) (lower g3) \<noteq> None
    \<and> map py_int (str_split (replace1 g3 [] g2)) = map Some ns \<and> length ns = 6"
  then have args: "color_args g2 g3 = Some (map (\<lambda>n. n mod 16) ns)"
    by (simp add: color_args_def parse_colors_Some)
  from a have len: "length (map (\<lambda>n. n mod 16) ns) = 6" by simp
  from a obtain r0 where r0: "select_hook db (lower (sender t)) (lower g3) = Some r0" by auto
  have "snd (configure_repo_colors x b t db) =
      update_colors db (map (\<lambda>n. n mod 16) ns) (lower (sender t)) (lower g3)"
    using configure_repo_colors_store [OF assms args len, of x db] r0 by simp
  then show stored: "map_option (\<lambda>r. [repo_color r, name_color r, branch_color r, tag_color r,
                              hash_color r, url_color r])
              (select_hook (snd (configure_repo_colors x b t db)) (lower (sender t)) (lower g3))
            = Some (map (\<lambda>n. n mod 16) ns)"
    using r0 colors_of_set_row_colors [OF len] by (simp add: select_hook_update_colors)
  assume "\<forall>n \<in> set ns. 0 \<le> n \<and> n < 16"
  then have "map (\<lambda>n. n mod 16) ns = ns"
    by (simp add: map_idI)
  with stored show "map_option (\<lambda>r. [repo_color r, name_color r, branch_color r, tag_color r,
                                   hash_color r, url_color r])
                   (select_hook (snd (configure_repo_colors x b t db)) (lower (sender t))
                      (lower g3))
                 = Some ns"
    by simp
qed

theorem upsert_and_set_colors_then_get_witness:
  "map_option enabled
     (select_hook
        (snd (configure_repo_messages demo_ext demo_bot
           (demo_trigger ''op'' (Some ''Acme/Widget 16 17 18 19 20 21'') (Some ''Acme/Widget'')
              (Some ''disable'')) [demo_row]))
        ''#chan'' ''acme/widget'') = Some False
   \<and> map_option (\<lambda>r. [repo_color r, name_color r, branch_color r, tag_color r,
                       hash_color r, url_color r])
     (select_hook
        (snd (configure_repo_colors demo_ext demo_bot
           (demo_trigger ''op'' (Some ''Acme/Widget 16 17 18 19 20 21'') (Some ''Acme/Widget'')
              (Some ''disable'')) [demo_row]))
        ''#chan'' ''acme/widget'') = Some [0, 1, 2, 3, 4, 5]"
  using upsert_and_set_colors_then_get [OF demo_allowed_op, of
      "Some ''Acme/Widget 16 17 18 19 20 21''" "Some ''Acme/Widget''" "Some ''disable''"
      "''Acme/Widget 16 17 18 19 20 21''" "''Acme/Widget''" demo_ext "[demo_row]"
      "[16, 17, 18, 19, 20, 21]"]
    demo_color_tokens
  by (simp add: demo_trigger_def lower_demo_keys demo_select not_bad_repo_demo demo_enabled_arg)

theorem set_colors_roundtrip_counterexample:
  "map py_int (str_split (replace1 ''Acme/Widget'' [] ''Acme/Widget 16 17 18 19 20 21''))
     = [Some 16, Some 17, Some 18, Some 19, Some 20, Some 21]
   \<and> select_hook
        (snd (configure_repo_colors demo_ext demo_bot
           (demo_trigger ''op'' (Some ''Acme/Widget 16 17 18 19 20 21'') (Some ''Acme/Widget'')
              (Some ''16'')) [demo_row]))
        ''#chan'' ''acme/widget''
      = Some (demo_row\<lparr>repo_color := 0, name_color := 1, branch_color := 2, tag_color := 3,
                hash_color := 4, url_color := 5\<rparr>)
   \<and> map_option repo_color
        (select_hook
           (snd (configure_repo_colors demo_ext demo_bot
              (demo_trigger ''op'' (Some ''Acme/Widget 16 17 18 19 20 21'') (Some ''Acme/Widget'')
                 (Some ''16'')) [demo_row]))
           ''#chan'' ''acme/widget'') \<noteq> Some 16"
proof -
  have args: "color_args ''Acme/Widget 16 17 18 19 20 21'' ''Acme/Widget'' = Some [0, 1, 2, 3, 4, 5]"
    using parse_colors_Some [OF demo_color_tokens] by (simp add: color_args_def)
  have "snd (configure_repo_colors demo_ext demo_bot
           (demo_trigger ''op'' (Some ''Acme/Widget 16 17 18 19 20 21'') (Some ''Acme/Widget'')
              (Some ''16'')) [demo_row])
        = update_colors [demo_row] [0, 1, 2, 3, 4, 5] ''#chan'' ''acme/widget''"
    using configure_repo_colors_store [OF demo_allowed_op _ _ _ _ args, of
        "Some ''Acme/Widget 16 17 18 19 20 21''" "Some ''Acme/Widget''" "Some ''16''" demo_ext "[demo_row]"]
    by (simp add: demo_trigger_def lower_demo_keys demo_select)
  then show ?thesis
    using demo_color_tokens
    by (simp add: select_hook_update_colors demo_select set_row_colors_six)
qed

text \<open>
  C2. When no row exists for the lowercased channel and repository, \<^verbatim>\<open>.gh-hook-color\<close>
  leaves the table as it was, whatever its other arguments, and an invocation that passes
  the privilege and argument checks is answered with the not-subscribed reply.
\<close>

theorem set_colors_unsubscribed_fails:
  assumes "group3 t = Some g3"
    and "select_hook db (lower (sender t)) (lower g3) = None"
  shows "snd (configure_repo_colors x b t db) = db
       \<and> (allowed b t = Some ok \<and> (ok \<or> admin t) \<and> group2 t = Some g2 \<and> g2 \<noteq> []
            \<and> color_args g2 g3 = Some cs \<and> length cs = 6 \<longrightarrow>
          configure_repo_colors x b t db
            = (Said [not_subscribed_msg (help_prefix b) (lower g3)], db))"
proof (intro conjI impI)
  show "snd (configure_repo_colors x b t db) = db"
    using configure_repo_colors_writes [of x b t db] assms by auto
next
  assume "allowed b t = Some ok \<and> (ok \<or> admin t) \<and> group2 t = Some g2 \<and> g2 \<noteq> []
            \<and> color_args g2 g3 = Some cs \<and> length cs = 6"
  then show "configure_repo_colors x b t db
            = (Said [not_subscribed_msg (help_prefix b) (lower g3)], db)"
    using configure_repo_colors_store [of b t ok g2 g3 cs x db] assms by simp
qed

theorem set_colors_unsubscribed_fails_witness:
  "configure_repo_colors demo_ext demo_bot
     (demo_trigger ''op'' (Some ''acme/widget 1 2 3 4 5 6'') (Some ''acme/widget'') (Some ''1''))
     []
   = (Said [not_subscribed_msg ''.'' ''acme/widget''], [])"
  using set_colors_unsubscribed_fails [of
      "demo_trigger ''op'' (Some ''acme/widget 1 2 3 4 5 6'') (Some ''acme/widget'') (Some ''1'')"
      "''acme/widget''" "[]" demo_ext demo_bot True "''acme/widget 1 2 3 4 5 6''"
      "[1, 2, 3, 4, 5, 6]"]
    demo_allowed_op [of "Some ''acme/widget 1 2 3 4 5 6''" "Some ''acme/widget''" "Some ''1''"]
    demo_six_args
  by (simp add: demo_trigger_def demo_bot_def select_hook_def lower_def lower_char_def)

text \<open>
  C3. When a row exists for the lowercased channel and repository, \<^verbatim>\<open>.gh-hook\<close> returns a
  table with the same number of rows, in which every row equals the row it was except
  possibly for its enabled flag (so all six colours are kept, also when the call
  disables the subscription), and every row of another key is untouched.
\<close>

theorem upsert_existing_row_keeps_colors:
  assumes "group3 t = Some g3"
    and "select_hook db (lower (sender t)) (lower g3) = Some r0"
  shows "length (snd (configure_repo_messages x b t db)) = length db
       \<and> (\<forall>i < length db.
             snd (configure_repo_messages x b t db) ! i
               = (db ! i)\<lparr>enabled := enabled (snd (configure_repo_messages x b t db) ! i)\<rparr>
           \<and> (\<not> matches (lower (sender t)) (lower g3) (db ! i) \<longrightarrow>
                 snd (configure_repo_messages x b t db) ! i = db ! i))"
proof -
  from configure_repo_messages_writes [of x b t db] assms
  consider "snd (configure_repo_messages x b t db) = db"
    | "snd (configure_repo_messages x b t db)
         = update_enabled db (enabled_arg (group4 t)) (lower (sender t)) (lower g3)"
    by auto
  then show ?thesis
  proof cases
    case 1
    then show ?thesis by simp
  next
    case 2
    show ?thesis
      unfolding 2 by (simp add: update_enabled_def)
  qed
qed

theorem upsert_existing_row_keeps_colors_witness:
  "snd (configure_repo_messages demo_ext demo_bot
      (demo_trigger ''op'' (Some ''Acme/Widget disable'') (Some ''Acme/Widget'') (Some ''disable''))
      [demo_row\<lparr>repo_color := 1\<rparr>])
   = [demo_row\<lparr>repo_color := 1, enabled := False\<rparr>]
   \<and> length (snd (configure_repo_messages demo_ext demo_bot
      (demo_trigger ''op'' (Some ''Acme/Widget disable'') (Some ''Acme/Widget'') (Some ''disable''))
      [demo_row\<lparr>repo_color := 1\<rparr>])) = 1"
proof -
  have sel: "select_hook [demo_row\<lparr>repo_color := 1\<rparr>] ''#chan'' ''acme/widget''
      = Some (demo_row\<lparr>repo_color := 1\<rparr>)"
    by (simp add: select_hook_def matches_def demo_row_def)
  have run: "snd (configure_repo_messages demo_ext demo_bot
      (demo_trigger ''op'' (Some ''Acme/Widget disable'') (Some ''Acme/Widget'') (Some ''disable''))
      [demo_row\<lparr>repo_color := 1\<rparr>])
   = [demo_row\<lparr>repo_color := 1, enabled := False\<rparr>]"
    using configure_repo_messages_store [OF demo_allowed_op, of
        "Some ''Acme/Widget disable''" "Some ''Acme/Widget''" "Some ''disable''" "''Acme/Widget''"
        demo_ext "[demo_row\<lparr>repo_color := 1\<rparr>]"] sel
    by (simp add: demo_trigger_def lower_demo_keys not_bad_repo_demo demo_enabled_arg truthy_def
        update_enabled_def matches_def demo_row_def)
  show ?thesis
    using upsert_existing_row_keeps_colors [of
        "demo_trigger ''op'' (Some ''Acme/Widget disable'') (Some ''Acme/Widget'') (Some ''disable'')"
        "''Acme/Widget''" "[demo_row\<lparr>repo_color := 1\<rparr>]" "demo_row\<lparr>repo_color := 1\<rparr>"
        demo_ext demo_bot] sel run
    by (simp add: demo_trigger_def lower_demo_keys)
qed

text \<open>
  C4 (as amended). If a \<^verbatim>\<open>.gh-hook-color\<close> invocation has a non-empty argument text and its
  colour arguments are not six tokens or contain a token that is not an integer, the
  table is returned as it was, and an authorised caller gets a single reply that starts
  with \<^verbatim>\<open>You must provide exactly 6 colors\<close>. An invocation with no argument text at all
  is answered with the usage text of the command instead, and the table is returned as
  it was. For every invocation, the table is either as it was or the rows of the key have
  all six colour columns overwritten from one list of six values.
\<close>

theorem bad_color_arguments_rejected:
  "(group2 t = Some g2 \<and> g2 \<noteq> [] \<and> group3 t = Some g3
      \<and> (length (str_split (replace1 g3 [] g2)) \<noteq> 6
           \<or> (\<exists>tok \<in> set (str_split (replace1 g3 [] g2)). py_int tok = None)) \<longrightarrow>
      snd (configure_repo_colors x b t db) = db
      \<and> (allowed b t = Some ok \<and> (ok \<or> admin t) \<longrightarrow>
           (\<exists>m. fst (configure_repo_colors x b t db) = Said [m]
                \<and> prefix ''You must provide exactly 6 colors'' m)))
   \<and> (\<not> truthy (group2 t) \<longrightarrow>
        snd (configure_repo_colors x b t db) = db
        \<and> (allowed b t = Some ok \<and> (ok \<or> admin t) \<longrightarrow>
             fst (configure_repo_colors x b t db) = Said [colors_doc]))
   \<and> (snd (configure_repo_colors x b t db) = db
        \<or> (\<exists>g2 g3 cs. group2 t = Some g2 \<and> group3 t = Some g3 \<and> color_args g2 g3 = Some cs
              \<and> length cs = 6
              \<and> snd (configure_repo_colors x b t db)
                  = map (\<lambda>r. if matches (lower (sender t)) (lower g3) r
                              then r\<lparr>repo_color := cs ! 0, name_color := cs ! 1,
                                     branch_color := cs ! 2, tag_color := cs ! 3,
                                     hash_color := cs ! 4, url_color := cs ! 5\<rparr>
                              else r) db))"
proof (intro conjI impI)
  assume a: "group2 t = Some g2 \<and> g2 \<noteq> [] \<and> group3 t = Some g3
      \<and> (length (str_split (replace1 g3 [] g2)) \<noteq> 6
           \<or> (\<exists>tok \<in> set (str_split (replace1 g3 [] g2)). py_int tok = None))"
  then have bad: "\<And>cs. color_args g2 g3 = Some cs \<Longrightarrow> length cs \<noteq> 6"
    using color_args_tokens [of g2 g3] by auto
  show "snd (configure_repo_colors x b t db) = db"
    using configure_repo_colors_writes [of x b t db] a bad by auto
  assume auth: "allowed b t = Some ok \<and> (ok \<or> admin t)"
  show "\<exists>m. fst (configure_repo_colors x b t db) = Said [m]
                \<and> prefix ''You must provide exactly 6 colors'' m"
  proof (cases "color_args g2 g3")
    case None
    with a auth have "fst (configure_repo_colors x b t db) = Said [six_integers_msg (help_prefix b)]"
      by (auto simp: configure_repo_colors_def)
    moreover have "prefix ''You must provide exactly 6 colors'' (six_integers_msg (help_prefix b))"
      by (simp add: six_integers_msg_def)
    ultimately show ?thesis by blast
  next
    case (Some cs)
    with a auth bad [of cs]
    have "fst (configure_repo_colors x b t db) = Said [six_colors_msg (help_prefix b)]"
      by (auto simp: configure_repo_colors_def)
    moreover have "prefix ''You must provide exactly 6 colors'' (six_colors_msg (help_prefix b))"
      by (simp add: six_colors_msg_def)
    ultimately show ?thesis by blast
  qed
next
  assume none: "\<not> truthy (group2 t)"
  then show "snd (configure_repo_colors x b t db) = db"
    using configure_repo_colors_writes [of x b t db] by (auto simp: truthy_def color_args_def
        configure_repo_colors_def split: option.splits)
  assume "allowed b t = Some ok \<and> (ok \<or> admin t)"
  with none show "fst (configure_repo_colors x b t db) = Said [colors_doc]"
    by (auto simp: configure_repo_colors_def truthy_def split: option.splits)
next
  show "snd (configure_repo_colors x b t db) = db
        \<or> (\<exists>g2 g3 cs. group2 t = Some g2 \<and> group3 t = Some g3 \<and> color_args g2 g3 = Some cs
              \<and> length cs = 6
              \<and> snd (configure_repo_colors x b t db)
                  = map (\<lambda>r. if matches (lower (sender t)) (lower g3) r
                              then r\<lparr>repo_color := cs ! 0, name_color := cs ! 1,
                                     branch_color := cs ! 2, tag_color := cs ! 3,
                                     hash_color := cs ! 4, url_color := cs ! 5\<rparr>
                              else r) db)"
    using configure_repo_colors_writes [of x b t db]
    unfolding update_colors_def set_row_colors_def by blast
qed

theorem bad_color_arguments_rejected_witness:
  "snd (configure_repo_colors demo_ext demo_bot
      (demo_trigger ''op'' (Some ''acme/widget 1 2 3 4 x'') (Some ''acme/widget'') (Some ''1''))
      [demo_row]) = [demo_row]
   \<and> (\<exists>m. fst (configure_repo_colors demo_ext demo_bot
      (demo_trigger ''op'' (Some ''acme/widget 1 2 3 4 x'') (Some ''acme/widget'') (Some ''1''))
      [demo_row]) = Said [m]
      \<and> prefix ''You must provide exactly 6 colors'' m)"
  using bad_color_arguments_rejected [of
      "demo_trigger ''op'' (Some ''acme/widget 1 2 3 4 x'') (Some ''acme/widget'') (Some ''1'')"
      "''acme/widget 1 2 3 4 x''" "''acme/widget''" demo_ext demo_bot "[demo_row]" True]
    demo_allowed_op [of "Some ''acme/widget 1 2 3 4 x''" "Some ''acme/widget''" "Some ''1''"]
    demo_five_tokens
  by (simp add: demo_trigger_def)

theorem bad_color_arguments_counterexample:
  "configure_repo_colors demo_ext demo_bot (demo_trigger ''op'' None None None) [demo_row]
     = (Said [colors_doc], [demo_row])
   \<and> \<not> prefix ''You must provide exactly 6 colors'' colors_doc"
proof -
  have "configure_repo_colors demo_ext demo_bot (demo_trigger ''op'' None None None) [demo_row]
     = (Said [colors_doc], [demo_row])"
    using demo_allowed_op [of None None None]
    by (simp add: configure_repo_colors_def demo_trigger_def)
  moreover have "\<not> prefix ''You must provide exactly 6 colors'' colors_doc"
    by (simp add: colors_doc_def)
  ultimately show ?thesis by (rule conjI)
qed

text \<open>
  C5. When \<^verbatim>\<open>.gh-hook-color\<close> accepts six integer arguments for a subscribed pair, the row
  read afterwards holds the accepted list, and each of the six colour columns of every
  row of that key is between 0 and 15.
\<close>

theorem stored_colors_in_palette:
  assumes "allowed b t = Some ok" and "ok \<or> admin t"
    and "group2 t = Some g2" and "g2 \<noteq> []" and "group3 t = Some g3"
    and "color_args g2 g3 = Some cs" and "length cs = 6"
    and "select_hook db (lower (sender t)) (lower g3) = Some r0"
  shows "(\<exists>r. select_hook (snd (configure_repo_colors x b t db)) (lower (sender t)) (lower g3) = Some r
            \<and> [repo_color r, name_color r, branch_color r, tag_color r, hash_color r, url_color r] = cs)
       \<and> (\<forall>r \<in> set (snd (configure_repo_colors x b t db)).
             matches (lower (sender t)) (lower g3) r \<longrightarrow>
             (\<forall>c \<in> set [repo_color r, name_color r, branch_color r, tag_color r, hash_color r,
                          url_color r]. 0 \<le> c \<and> c \<le> 15))"
proof -
  have run: "snd (configure_repo_colors x b t db)
      = update_colors db cs (lower (sender t)) (lower g3)"
    using configure_repo_colors_store [OF assms(1-7), of x db] assms(8) by simp
  have range: "\<forall>c \<in> set cs. 0 \<le> c \<and> c \<le> 15"
    using assms(6) parse_colors_range [of "str_split (replace1 g3 [] g2)" cs]
    by (auto simp: color_args_def)
  have first: "\<exists>r. select_hook (snd (configure_repo_colors x b t db)) (lower (sender t)) (lower g3) = Some r
            \<and> [repo_color r, name_color r, branch_color r, tag_color r, hash_color r, url_color r] = cs"
    unfolding run select_hook_update_colors assms(8)
    using colors_of_set_row_colors [OF assms(7)] by simp
  have "\<forall>c \<in> set [repo_color r, name_color r, branch_color r, tag_color r, hash_color r,
                          url_color r]. 0 \<le> c \<and> c \<le> 15"
    if "r \<in> set (update_colors db cs (lower (sender t)) (lower g3))"
      and "matches (lower (sender t)) (lower g3) r" for r
  proof -
    from that obtain r' where "r = set_row_colors cs r'"
      by (auto simp: update_colors_def matches_def set_row_colors_def split: if_splits)
    then have "[repo_color r, name_color r, branch_color r, tag_color r, hash_color r, url_color r] = cs"
      using colors_of_set_row_colors [OF assms(7)] by simp
    with range show ?thesis by simp
  qed
  with first show ?thesis unfolding run by blast
qed

theorem stored_colors_in_palette_witness:
  "(\<exists>r. select_hook
      (snd (configure_repo_colors demo_ext demo_bot
         (demo_trigger ''op'' (Some ''Acme/Widget 16 17 18 19 20 21'') (Some ''Acme/Widget'')
            (Some ''16'')) [demo_row])) ''#chan'' ''acme/widget'' = Some r
      \<and> [repo_color r, name_color r, branch_color r, tag_color r, hash_color r, url_color r]
          = [0, 1, 2, 3, 4, 5])"
proof -
  have args: "color_args ''Acme/Widget 16 17 18 19 20 21'' ''Acme/Widget'' = Some [0, 1, 2, 3, 4, 5]"
    using parse_colors_Some [OF demo_color_tokens] by (simp add: color_args_def)
  show ?thesis
    using stored_colors_in_palette [OF demo_allowed_op _ _ _ _ args, of
      "Some ''Acme/Widget 16 17 18 19 20 21''" "Some ''Acme/Widget''" "Some ''16''"
      "[demo_row]" demo_row demo_ext]
    by (simp add: demo_trigger_def lower_demo_keys demo_select)
qed



text \<open>
  C7. A caller who is neither a channel operator (privilege level below \<open>OP\<close>) nor a bot
  admin gets the privilege error from both \<^verbatim>\<open>.gh-hook\<close> and \<^verbatim>\<open>.gh-hook-color\<close>, and the
  command returns there: the table is returned as it was, and since the result is the
  same for every table, nothing was read from it.
\<close>

theorem unprivileged_caller_rejected:
  assumes "channels b (sender t) = Some privileges"
    and "(case privileges (nick t) of None \<Rightarrow> 0 | Some p \<Rightarrow> p) < OP"
    and "\<not> admin t"
  shows "configure_repo_messages x b t db = (Said [operator_msg], db)
       \<and> configure_repo_colors x b t db = (Said [operator_msg], db)"
proof -
  from assms(1,2) have "allowed b t = Some False"
    by (simp add: allowed_def)
  with assms(3) show ?thesis
    by (simp add: configure_repo_messages_def configure_repo_colors_def)
qed

theorem unprivileged_caller_rejected_witness:
  "configure_repo_messages demo_ext demo_bot
     (demo_trigger ''voice'' (Some ''acme/widget'') (Some ''acme/widget'') None) [demo_row]
     = (Said [operator_msg], [demo_row])
   \<and> configure_repo_colors demo_ext demo_bot
     (demo_trigger ''voice'' (Some ''acme/widget'') (Some ''acme/widget'') None) [demo_row]
     = (Said [operator_msg], [demo_row])"
  using unprivileged_caller_rejected [of demo_bot
      "demo_trigger ''voice'' (Some ''acme/widget'') (Some ''acme/widget'') None"
      demo_privileges demo_ext "[demo_row]"]
  by (simp add: demo_bot_def demo_trigger_def demo_privileges_def OP_def)

text \<open>
  C8. In the listener as the design describes it, a request whose signature differs from
  the HMAC of its raw body under the configured secret is rejected as \<open>InvalidSignature\<close>:
  the answer is not 200 and nothing is delivered to any channel, whatever the body, the
  parser, the renderers and the table are.
\<close>

theorem tampered_signature_rejected:
  assumes "secret l = Some k"
    and "signature_header req \<noteq> hmac l k (raw_body req)"
  shows "validate l req = Inl InvalidSignature
       \<and> fst (handle_request l db req) \<noteq> 200
       \<and> snd (handle_request l db req) = []"
  using assms by (simp add: handle_request_def validate_def status_of_def)

theorem tampered_signature_rejected_witness:
  "handle_request demo_listener [demo_row] (demo_request ''sha1=forged'') = (401, [])
   \<and> handle_request demo_listener [demo_row] (demo_request ''sha1=s3cret{}'')
       = (200, [(''#chan'', ''push to acme/widget'')])"
proof -
  have run: "handle_request demo_listener [demo_row] (demo_request ''sha1=s3cret{}'')
       = (200, [(''#chan'', ''push to acme/widget'')])"
    by (simp add: handle_request_def validate_def demo_listener_def demo_request_def route_def
        list_enabled_for_repo_def lower_demo_keys demo_row_def List.map_filter_simps)
  have "fst (handle_request demo_listener [demo_row] (demo_request ''sha1=forged'')) = 401"
    by (simp add: handle_request_def validate_def demo_listener_def demo_request_def status_of_def)
  with tampered_signature_rejected [of demo_listener "''s3cret''" "demo_request ''sha1=forged''"
      "[demo_row]"] run
  show ?thesis
    by (simp add: demo_listener_def demo_request_def prod_eq_iff)
qed

text \<open>
  C9. For every \<^verbatim>\<open>.gh-hook\<close> invocation that reaches the store, the row read afterwards has
  \<open>enabled\<close> true exactly when the fourth group is absent or empty, or is the word
  \<^verbatim>\<open>enable\<close> with each letter in either case; any other argument stores false.
\<close>

theorem enabled_flag_from_argument:
  assumes "allowed b t = Some ok" and "ok \<or> admin t" and "truthy (group2 t)"
    and "group3 t = Some g3" and "\<not> bad_repo (lower g3)"
  shows "\<exists>r. select_hook (snd (configure_repo_messages x b t db)) (lower (sender t)) (lower g3) = Some r
          \<and> (enabled r \<longleftrightarrow>
                group4 t = None \<or> group4 t = Some []
                \<or> (\<exists>c1 c2 c3 c4 c5 c6. group4 t = Some [c1, c2, c3, c4, c5, c6]
                      \<and> (c1 = CHR ''e'' \<or> c1 = CHR ''E'') \<and> (c2 = CHR ''n'' \<or> c2 = CHR ''N'')
                      \<and> (c3 = CHR ''a'' \<or> c3 = CHR ''A'') \<and> (c4 = CHR ''b'' \<or> c4 = CHR ''B'')
                      \<and> (c5 = CHR ''l'' \<or> c5 = CHR ''L'') \<and> (c6 = CHR ''e'' \<or> c6 = CHR ''E'')))"
proof -
  have arg: "enabled_arg (group4 t) \<longleftrightarrow>
      group4 t = None \<or> group4 t = Some []
      \<or> (\<exists>c1 c2 c3 c4 c5 c6. group4 t = Some [c1, c2, c3, c4, c5, c6]
            \<and> (c1 = CHR ''e'' \<or> c1 = CHR ''E'') \<and> (c2 = CHR ''n'' \<or> c2 = CHR ''N'')
            \<and> (c3 = CHR ''a'' \<or> c3 = CHR ''A'') \<and> (c4 = CHR ''b'' \<or> c4 = CHR ''B'')
            \<and> (c5 = CHR ''l'' \<or> c5 = CHR ''L'') \<and> (c6 = CHR ''e'' \<or> c6 = CHR ''E''))"
  proof (cases "group4 t")
    case None
    then show ?thesis by (simp add: enabled_arg_def truthy_def)
  next
    case (Some s)
    have "enabled_arg (Some s) \<longleftrightarrow> s = [] \<or> lower s = ''enable''"
      by (auto simp: enabled_arg_def truthy_def)
    then show ?thesis
      unfolding Some lower_eq_enable by simp
  qed
  have "snd (configure_repo_messages x b t db) =
     (case select_hook db (lower (sender t)) (lower g3) of
        None \<Rightarrow> insert_hook (defaults x) db (lower (sender t)) (lower g3) (enabled_arg (group4 t))
      | Some r \<Rightarrow> update_enabled db (enabled_arg (group4 t)) (lower (sender t)) (lower g3))"
    using assms by (rule configure_repo_messages_store)
  then have "\<exists>r. select_hook (snd (configure_repo_messages x b t db)) (lower (sender t)) (lower g3) = Some r
      \<and> enabled r = enabled_arg (group4 t)"
    by (cases "select_hook db (lower (sender t)) (lower g3)")
      (simp_all add: select_hook_insert_hook select_hook_update_enabled)
  with arg show ?thesis by blast
qed


theorem enabled_flag_from_argument_witness:
  "(\<exists>r. select_hook
      (snd (configure_repo_messages demo_ext demo_bot
         (demo_trigger ''op'' (Some ''Acme/Widget enabel'') (Some ''Acme/Widget'') (Some ''enabel''))
         [demo_row])) ''#chan'' ''acme/widget'' = Some r \<and> \<not> enabled r)
   \<and> (\<exists>r. select_hook
      (snd (configure_repo_messages demo_ext demo_bot
         (demo_trigger ''op'' (Some ''Acme/Widget EnAbLe'') (Some ''Acme/Widget'') (Some ''EnAbLe''))
         [])) ''#chan'' ''acme/widget'' = Some r \<and> enabled r)"
  using enabled_flag_from_argument [OF demo_allowed_op, of
      "Some ''Acme/Widget enabel''" "Some ''Acme/Widget''" "Some ''enabel''" "''Acme/Widget''"
      demo_ext "[demo_row]"]
    enabled_flag_from_argument [OF demo_allowed_op, of
      "Some ''Acme/Widget EnAbLe''" "Some ''Acme/Widget''" "Some ''EnAbLe''" "''Acme/Widget''"
      demo_ext "[]"]
  by (simp add: demo_trigger_def lower_demo_keys not_bad_repo_demo truthy_def)

text \<open>
  C10. If the repository argument of \<^verbatim>\<open>.gh-hook\<close> has no \<^verbatim>\<open>/\<close> or contains \<^verbatim>\<open>http://\<close> or
  \<^verbatim>\<open>https://\<close>, the table is returned as it was, and the invocation of an authorised caller
  is answered with the repo-formatting error alone; the result does not depend on the
  table.
\<close>

theorem malformed_repo_rejected:
  assumes "group3 t = Some g3"
    and "CHR ''/'' \<notin> set g3 \<or> sublist ''http://'' g3 \<or> sublist ''https://'' g3"
  shows "snd (configure_repo_messages x b t db) = db
       \<and> (allowed b t = Some ok \<and> (ok \<or> admin t) \<and> truthy (group2 t) \<longrightarrow>
            configure_repo_messages x b t db = (Said [invalid_repo_msg (help_prefix b)], db))"
proof -
  have "contains ''/'' g3 \<longleftrightarrow> CHR ''/'' \<in> set g3"
    by (rule contains_single)
  with assms(2) have "bad_repo (lower g3)"
    by (intro bad_repo_lower) (simp only: contains_iff_sublist [of "''http://''"]
        contains_iff_sublist [of "''https://''"])
  with assms(1) show ?thesis
    by (auto simp: configure_repo_messages_def Let_def split: option.splits)
qed

theorem malformed_repo_rejected_witness:
  "configure_repo_messages demo_ext demo_bot
     (demo_trigger ''op'' (Some ''https://github.com/acme/widget'')
        (Some ''https://github.com/acme/widget'') None) [demo_row]
   = (Said [invalid_repo_msg ''.''], [demo_row])"
proof -
  have "sublist ''https://'' ''https://github.com/acme/widget''"
    by (simp add: sublist_Cons_right)
  then show ?thesis
    using malformed_repo_rejected [of
      "demo_trigger ''op'' (Some ''https://github.com/acme/widget'')
        (Some ''https://github.com/acme/widget'') None"
      "''https://github.com/acme/widget''" demo_ext demo_bot "[demo_row]" True]
      demo_allowed_op [of "Some ''https://github.com/acme/widget''"
        "Some ''https://github.com/acme/widget''" None]
    by (simp add: demo_trigger_def demo_bot_def truthy_def)
qed

end
